theory Spec2Isabelle
  imports Complex_Main
begin

section \<open>The AVR/Arduino hardware simulator (tools/simulator/avr_simulator.py)\<close>

text \<open>
  A shallow embedding of the class \<open>AVRSimulator\<close>: its peripheral state (GPIO pins,
  timers, serial data, simulated time) and the methods that the interpreter of sketch
  lines calls on it. The simulator is modelled as \<open>run\<close> sets it up, that is after
  \<open>create_gui\<close>: the Tk variables \<open>status_var\<close> and \<open>speed_var\<close> exist. Widget updates
  and \<open>print\<close> output are effects outside the peripheral state and are left out.

  Python's \<open>float\<close> fields (\<open>simulation_time\<close>, \<open>last_change\<close>, \<open>frequency\<close>,
  \<open>duty_cycle\<close>) are modelled as exact rationals: the model does the arithmetic of the
  source without the rounding of IEEE doubles.
\<close>

subsection \<open>Data model\<close>

datatype PinMode = INPUT | OUTPUT | INPUT_PULLUP

datatype PinState = LOW | HIGH

record GPIOPin =
  number :: int
  mode :: PinMode
  state :: PinState
  analog_value :: int
  pwm_value :: int
  pwm_enabled :: bool
  last_change :: rat

record TimerConfig =
  timer_id :: int
  prescaler :: int
  compare_value :: int
  counter_value :: int
  overflow_count :: int
  pwm_mode :: bool
  frequency :: rat
  duty_cycle :: rat

record SerialData =
  tx_buffer :: "string list"
  rx_buffer :: "string list"
  baud_rate :: int
  tx_count :: int
  rx_count :: int

text \<open>
  The simulator object. \<open>speed_multiplier\<close> stands for the value that the source reads
  with \<open>float(self.speed_var.get().replace('x', ''))\<close>; the combobox offers
  0.1x, 0.5x, 1x, 2x, 5x and 10x and starts at 1x.
\<close>

record AVRSimulator =
  pins :: "int \<rightharpoonup> GPIOPin"
  timers :: "int \<rightharpoonup> TimerConfig"
  serial :: SerialData
  simulation_time :: rat
  sim_running :: bool
  speed_multiplier :: rat

datatype error = ZeroDivisionError

subsection \<open>Construction\<close>

text \<open>The dataclass defaults of \<open>GPIOPin(number=pin)\<close>, \<open>TimerConfig(timer_id=i)\<close>
  and \<open>SerialData()\<close>.\<close>

definition GPIOPin_new :: "int \<Rightarrow> GPIOPin" where
  "GPIOPin_new pin =
     \<lparr>number = pin, mode = INPUT, state = LOW, analog_value = 0, pwm_value = 0,
      pwm_enabled = False, last_change = 0\<rparr>"

definition TimerConfig_new :: "int \<Rightarrow> TimerConfig" where
  "TimerConfig_new i =
     \<lparr>timer_id = i, prescaler = 1, compare_value = 0, counter_value = 0,
      overflow_count = 0, pwm_mode = False, frequency = 0, duty_cycle = 0\<rparr>"

definition SerialData_new :: SerialData where
  "SerialData_new =
     \<lparr>tx_buffer = [], rx_buffer = [], baud_rate = 9600, tx_count = 0, rx_count = 0\<rparr>"

text \<open>\<open>self.pins[pin].mode = m\<close> on a pin that is present.\<close>

definition set_mode :: "int \<Rightarrow> PinMode \<Rightarrow> (int \<rightharpoonup> GPIOPin) \<Rightarrow> (int \<rightharpoonup> GPIOPin)" where
  "set_mode pin m ps = (case ps pin of None \<Rightarrow> ps | Some p \<Rightarrow> ps(pin \<mapsto> p\<lparr>mode := m\<rparr>))"

text \<open>\<open>init_gpio_pins\<close>: digital pins 0-13, analog pins 14-19 with the middle value,
  then the three special configurations.\<close>

definition init_gpio_pins :: "int \<rightharpoonup> GPIOPin" where
  "init_gpio_pins =
     (let digital = fold (\<lambda>pin ps. ps(pin \<mapsto> GPIOPin_new pin)) [0, 1, 2, 3, 4, 5, 6, 7, 8, 9, 10, 11, 12, 13] Map.empty;
          analog = fold (\<lambda>pin ps. ps(pin \<mapsto> (GPIOPin_new pin)\<lparr>mode := INPUT, analog_value := 512\<rparr>))
                     [14, 15, 16, 17, 18, 19] digital
      in set_mode 1 OUTPUT (set_mode 0 INPUT (set_mode 13 OUTPUT analog)))"

definition init_timers :: "int \<rightharpoonup> TimerConfig" where
  "init_timers = [0 \<mapsto> TimerConfig_new 0, 1 \<mapsto> TimerConfig_new 1, 2 \<mapsto> TimerConfig_new 2]"

definition AVRSimulator_init :: AVRSimulator where
  "AVRSimulator_init =
     \<lparr>pins = init_gpio_pins, timers = init_timers, serial = SerialData_new,
      simulation_time = 0, sim_running = False, speed_multiplier = 1\<rparr>"

subsection \<open>Python's decimal rendering of an integer in an f-string\<close>

definition digit_char :: "nat \<Rightarrow> char" where
  "digit_char d = ''0123456789'' ! (d mod 10)"

function str_nat :: "nat \<Rightarrow> string" where
  "str_nat n = (if n < 10 then [digit_char n] else str_nat (n div 10) @ [digit_char (n mod 10)])"
  by pat_completeness auto
termination
  by (relation "measure (\<lambda>n. n)") auto

declare str_nat.simps [simp del]

definition str_int :: "int \<Rightarrow> string" where
  "str_int i = (if i < 0 then CHR ''-'' # str_nat (nat (- i)) else str_nat (nat i))"

subsection \<open>The Arduino functions\<close>

definition arduino_pinMode :: "AVRSimulator \<Rightarrow> int \<Rightarrow> string \<Rightarrow> AVRSimulator" where
  "arduino_pinMode s pin m =
     (case pins s pin of
        None \<Rightarrow> s
      | Some p \<Rightarrow>
          if m = ''OUTPUT'' then s\<lparr>pins := (pins s)(pin \<mapsto> p\<lparr>mode := OUTPUT\<rparr>)\<rparr>
          else if m = ''INPUT'' then s\<lparr>pins := (pins s)(pin \<mapsto> p\<lparr>mode := INPUT\<rparr>)\<rparr>
          else if m = ''INPUT_PULLUP'' then s\<lparr>pins := (pins s)(pin \<mapsto> p\<lparr>mode := INPUT_PULLUP\<rparr>)\<rparr>
          else s)"

text \<open>The guard \<open>pin not in self.pins or self.pins[pin].mode != PinMode.OUTPUT\<close>
  evaluates its second operand only for a pin that is present.\<close>

definition arduino_digitalWrite :: "AVRSimulator \<Rightarrow> int \<Rightarrow> string \<Rightarrow> AVRSimulator" where
  "arduino_digitalWrite s pin st =
     (case pins s pin of
        None \<Rightarrow> s
      | Some p \<Rightarrow>
          if mode p = OUTPUT
          then s\<lparr>pins := (pins s)(pin \<mapsto>
                 p\<lparr>state := (if st = ''HIGH'' then HIGH else LOW),
                   last_change := simulation_time s\<rparr>)\<rparr>
          else s)"

definition arduino_analogWrite :: "AVRSimulator \<Rightarrow> int \<Rightarrow> int \<Rightarrow> AVRSimulator" where
  "arduino_analogWrite s pin v =
     (case pins s pin of
        None \<Rightarrow> s
      | Some p \<Rightarrow>
          s\<lparr>pins := (pins s)(pin \<mapsto> p\<lparr>pwm_value := max 0 (min 255 v), pwm_enabled := True\<rparr>)\<rparr>)"

definition serial_output :: "AVRSimulator \<Rightarrow> string \<Rightarrow> AVRSimulator" where
  "serial_output s text =
     s\<lparr>serial := (serial s)\<lparr>tx_buffer := tx_buffer (serial s) @ [text],
                            tx_count := tx_count (serial s) + int (length text)\<rparr>\<rparr>"

definition arduino_serial_begin :: "AVRSimulator \<Rightarrow> int \<Rightarrow> AVRSimulator" where
  "arduino_serial_begin s baud =
     serial_output (s\<lparr>serial := (serial s)\<lparr>baud_rate := baud\<rparr>\<rparr>)
       (''Serial communication started at '' @ str_int baud @ '' baud'' @ [CHR 0x0A])"

definition arduino_serial_println :: "AVRSimulator \<Rightarrow> string \<Rightarrow> AVRSimulator" where
  "arduino_serial_println s text = serial_output s (text @ [CHR 0x0A])"

definition arduino_serial_print :: "AVRSimulator \<Rightarrow> string \<Rightarrow> AVRSimulator" where
  "arduino_serial_print s text = serial_output s text"

text \<open>
  \<open>arduino_delay\<close>: the division by the speed multiplier raises \<open>ZeroDivisionError\<close>
  for a multiplier of zero, before anything is changed. \<open>delay_sleep\<close> is the argument
  handed to \<open>time.sleep\<close> (zero when the sleep is skipped); the sleep blocks the thread
  and changes no field.
\<close>

definition delay_sleep :: "AVRSimulator \<Rightarrow> int \<Rightarrow> rat" where
  "delay_sleep s ms =
     (let delay_seconds = of_int ms / 1000;
          actual_delay = delay_seconds / speed_multiplier s
      in if actual_delay > 1 / 1000 then actual_delay else 0)"

definition arduino_delay :: "AVRSimulator \<Rightarrow> int \<Rightarrow> error + AVRSimulator" where
  "arduino_delay s ms =
     (let delay_seconds = of_int ms / 1000
      in if speed_multiplier s = 0 then Inl ZeroDivisionError
         else Inr (s\<lparr>simulation_time := simulation_time s + delay_seconds\<rparr>))"

subsection \<open>The interpreter of sketch lines\<close>

text \<open>
  \<open>execute_line\<close> recognises a line by its prefix and a regular expression and calls
  the Arduino function with the matched arguments. The text matching is not modelled: a
  line is given by the call it yields, \<open>OtherLine\<close> standing for a comment and for a line
  that matches no pattern (neither has an effect).
\<close>

datatype line =
    PinModeLine int string
  | DigitalWriteLine int string
  | AnalogWriteLine int int
  | SerialBeginLine int
  | SerialPrintlnLine string
  | SerialPrintLine string
  | DelayLine int
  | OtherLine

fun execute_line :: "AVRSimulator \<Rightarrow> line \<Rightarrow> error + AVRSimulator" where
  "execute_line s (PinModeLine pin m) = Inr (arduino_pinMode s pin m)"
| "execute_line s (DigitalWriteLine pin st) = Inr (arduino_digitalWrite s pin st)"
| "execute_line s (AnalogWriteLine pin v) = Inr (arduino_analogWrite s pin v)"
| "execute_line s (SerialBeginLine baud) = Inr (arduino_serial_begin s baud)"
| "execute_line s (SerialPrintlnLine text) = Inr (arduino_serial_println s text)"
| "execute_line s (SerialPrintLine text) = Inr (arduino_serial_print s text)"
| "execute_line s (DelayLine ms) = arduino_delay s ms"
| "execute_line s OtherLine = Inr s"

text \<open>
  \<open>parse_and_execute_code\<close>: every line runs inside \<open>try\<close>/\<open>except Exception\<close>, so a
  line that raises is reported and the next line runs. The only raise of the model
  happens before any change, hence the state after a failed line is the state before.
\<close>

fun parse_and_execute_code :: "AVRSimulator \<Rightarrow> line list \<Rightarrow> AVRSimulator" where
  "parse_and_execute_code s [] = s"
| "parse_and_execute_code s (l # ls) =
     parse_and_execute_code (case execute_line s l of Inl e \<Rightarrow> s | Inr s' \<Rightarrow> s') ls"



subsection \<open>The scheduler\<close>



definition stop_simulation :: "AVRSimulator \<Rightarrow> AVRSimulator" where
  "stop_simulation s = s\<lparr>sim_running := False\<rparr>"

definition reset_pin :: "GPIOPin \<Rightarrow> GPIOPin" where
  "reset_pin p =
     p\<lparr>state := LOW, analog_value := (if number p \<ge> 14 then 512 else 0),
       pwm_value := 0, pwm_enabled := False, last_change := 0\<rparr>"

definition reset_timer :: "TimerConfig \<Rightarrow> TimerConfig" where
  "reset_timer t = t\<lparr>counter_value := 0, overflow_count := 0, frequency := 0, duty_cycle := 0\<rparr>"

definition reset_simulation :: "AVRSimulator \<Rightarrow> AVRSimulator" where
  "reset_simulation s =
     (let s1 = stop_simulation s
      in s1\<lparr>pins := (\<lambda>k. map_option reset_pin (pins s1 k)),
            timers := (\<lambda>k. map_option reset_timer (timers s1 k)),
            serial := (serial s1)\<lparr>tx_buffer := [], rx_buffer := [], tx_count := 0, rx_count := 0\<rparr>,
            simulation_time := 0\<rparr>)"


subsection \<open>Inputs of the scenarios\<close>

text \<open>The pin that a line names, for the lines that name one.\<close>

definition pin_of :: "line \<Rightarrow> int option" where
  "pin_of l =
     (case l of PinModeLine pin m \<Rightarrow> Some pin
      | DigitalWriteLine pin st \<Rightarrow> Some pin
      | AnalogWriteLine pin v \<Rightarrow> Some pin
      | _ \<Rightarrow> None)"



text \<open>A simulator that has run a few lines: serial opened, time advanced, pin 13 high,
  PWM on pin 14, one string printed.\<close>

definition used_state :: AVRSimulator where
  "used_state =
     parse_and_execute_code AVRSimulator_init
       [SerialBeginLine 9600, DelayLine 250, DigitalWriteLine 13 ''HIGH'', AnalogWriteLine 14 200,
        SerialPrintLine ''hi'']"

section \<open>Properties\<close>

subsection \<open>Evaluation of the initial state\<close>

lemma init_pins_0: "init_gpio_pins 0 = Some (GPIOPin_new 0)"
  by (simp add: init_gpio_pins_def set_mode_def GPIOPin_new_def)

lemma init_pins_2: "init_gpio_pins 2 = Some (GPIOPin_new 2)"
  by (simp add: init_gpio_pins_def set_mode_def)

lemma init_pins_9: "init_gpio_pins 9 = Some (GPIOPin_new 9)"
  by (simp add: init_gpio_pins_def set_mode_def)

lemma init_pins_13: "init_gpio_pins 13 = Some ((GPIOPin_new 13)\<lparr>mode := OUTPUT\<rparr>)"
  by (simp add: init_gpio_pins_def set_mode_def)

lemma init_pins_14: "init_gpio_pins 14 = Some ((GPIOPin_new 14)\<lparr>analog_value := 512\<rparr>)"
  by (simp add: init_gpio_pins_def set_mode_def GPIOPin_new_def)

lemma init_pins_42: "init_gpio_pins 42 = None"
  by (simp add: init_gpio_pins_def set_mode_def)

lemma str_int_9600: "str_int 9600 = ''9600''"
  by (simp add: str_int_def str_nat.simps digit_char_def)

lemma used_state_13:
  "pins used_state 13 =
     Some \<lparr>number = 13, mode = OUTPUT, state = HIGH, analog_value = 0, pwm_value = 0,
           pwm_enabled = False, last_change = 1 / 4\<rparr>"
  by (simp add: used_state_def AVRSimulator_init_def init_pins_13 arduino_serial_begin_def
        serial_output_def arduino_delay_def arduino_digitalWrite_def arduino_analogWrite_def
        arduino_serial_print_def init_pins_14 GPIOPin_new_def)

lemma used_state_14:
  "pins used_state 14 =
     Some \<lparr>number = 14, mode = INPUT, state = LOW, analog_value = 512, pwm_value = 200,
           pwm_enabled = True, last_change = 0\<rparr>"
  by (simp add: used_state_def AVRSimulator_init_def init_pins_13 arduino_serial_begin_def
        serial_output_def arduino_delay_def arduino_digitalWrite_def arduino_analogWrite_def
        arduino_serial_print_def init_pins_14 GPIOPin_new_def)

lemma used_state_timer: "timers used_state 1 = Some (TimerConfig_new 1)"
  by (simp add: used_state_def AVRSimulator_init_def init_pins_13 arduino_serial_begin_def
        serial_output_def arduino_delay_def arduino_digitalWrite_def arduino_analogWrite_def
        arduino_serial_print_def init_pins_14 init_timers_def)

lemma used_state_time: "simulation_time used_state = 1 / 4 \<and> tx_count (serial used_state) = 44"
  by (simp add: used_state_def AVRSimulator_init_def init_pins_13 arduino_serial_begin_def
        serial_output_def arduino_delay_def arduino_digitalWrite_def arduino_analogWrite_def
        arduino_serial_print_def init_pins_14 str_int_9600 SerialData_new_def)

lemma reset_pin_fields:
  "state (reset_pin p) = LOW \<and>
   analog_value (reset_pin p) = (if number (reset_pin p) \<ge> 14 then 512 else 0) \<and>
   \<not> pwm_enabled (reset_pin p) \<and> pwm_value (reset_pin p) = 0 \<and> last_change (reset_pin p) = 0 \<and>
   mode (reset_pin p) = mode p \<and> number (reset_pin p) = number p"
  by (simp add: reset_pin_def)

subsection \<open>The set of pins never changes\<close>

lemma pinMode_known: "pins (arduino_pinMode s pin m) k = None \<longleftrightarrow> pins s k = None"
  by (simp add: arduino_pinMode_def split: option.splits)

lemma digitalWrite_known: "pins (arduino_digitalWrite s pin st) k = None \<longleftrightarrow> pins s k = None"
  by (simp add: arduino_digitalWrite_def split: option.splits)

lemma analogWrite_known: "pins (arduino_analogWrite s pin v) k = None \<longleftrightarrow> pins s k = None"
  by (simp add: arduino_analogWrite_def split: option.splits)

lemma serial_output_pins: "pins (serial_output s text) = pins s"
  by (simp add: serial_output_def)

lemma execute_line_known:
  "execute_line s l = Inr s' \<Longrightarrow> pins s' k = None \<longleftrightarrow> pins s k = None"
  by (cases l)
     (auto simp: pinMode_known digitalWrite_known analogWrite_known serial_output_pins
        arduino_serial_begin_def arduino_serial_println_def arduino_serial_print_def
        arduino_delay_def Let_def split: if_splits)

lemma parse_and_execute_code_known:
  "pins (parse_and_execute_code s ls) k = None \<longleftrightarrow> pins s k = None"
proof (induction ls arbitrary: s)
  case Nil
  show ?case by simp
next
  case (Cons l ls)
  show ?case
  proof (cases "execute_line s l")
    case (Inl e)
    then show ?thesis using Cons.IH [of s] by simp
  next
    case (Inr s')
    then show ?thesis using Cons.IH [of s'] execute_line_known [OF Inr, of k] by simp
  qed
qed

lemma parse_and_execute_code_append:
  "parse_and_execute_code s (xs @ ys) = parse_and_execute_code (parse_and_execute_code s xs) ys"
  by (induction xs arbitrary: s) simp_all

lemma execute_line_unknown_pin:
  "pin_of l = Some pin \<Longrightarrow> pins s pin = None \<Longrightarrow> execute_line s l = Inr s"
  by (cases l)
     (simp_all add: pin_of_def arduino_pinMode_def arduino_digitalWrite_def arduino_analogWrite_def)

subsection \<open>C1: writes to a pin that is not an output\<close>

text \<open>
  \<open>arduino_analogWrite\<close> has no mode check: on pin 2, an input with duty 0, a PWM write
  of 100 stores 100.
\<close>

theorem write_non_output_counterexample:
  "map_option mode (pins AVRSimulator_init 2) = Some INPUT \<and>
   map_option pwm_value (pins AVRSimulator_init 2) = Some 0 \<and>
   map_option pwm_value (pins (arduino_analogWrite AVRSimulator_init 2 100) 2) = Some 100"
  by (simp add: AVRSimulator_init_def init_pins_2 arduino_analogWrite_def GPIOPin_new_def)

text \<open>
  Claim C1, amended. For a pin whose mode is not \<open>OUTPUT\<close>, a digital write changes
  nothing at all (so \<open>digitalWrite(2, HIGH)\<close> on the input pin 2 leaves it \<open>LOW\<close>). A
  PWM write on such a pin leaves its logic state and mode as they are, but it does store
  the duty, clamped to 0..255, and enables PWM.
\<close>

theorem write_non_output:
  assumes "pins s pin = Some p" and "mode p \<noteq> OUTPUT"
  shows "arduino_digitalWrite s pin st = s \<and>
         pins (arduino_analogWrite s pin v) pin =
           Some (p\<lparr>pwm_value := max 0 (min 255 v), pwm_enabled := True\<rparr>) \<and>
         map_option state (pins (arduino_analogWrite s pin v) pin) = Some (state p) \<and>
         map_option mode (pins (arduino_analogWrite s pin v) pin) = Some (mode p)"
  using assms by (simp add: arduino_digitalWrite_def arduino_analogWrite_def)

theorem write_non_output_witness:
  "pins AVRSimulator_init 2 = Some (GPIOPin_new 2) \<and> mode (GPIOPin_new 2) \<noteq> OUTPUT \<and>
   arduino_digitalWrite AVRSimulator_init 2 ''HIGH'' = AVRSimulator_init \<and>
   map_option state (pins (arduino_digitalWrite AVRSimulator_init 2 ''HIGH'') 2) = Some LOW \<and>
   map_option state (pins (arduino_analogWrite AVRSimulator_init 2 100) 2) = Some LOW \<and>
   map_option pwm_value (pins (arduino_analogWrite AVRSimulator_init 2 100) 2) = Some 100"
proof -
  have a: "pins AVRSimulator_init 2 = Some (GPIOPin_new 2)"
    by (simp add: AVRSimulator_init_def init_pins_2)
  have b: "mode (GPIOPin_new 2) \<noteq> OUTPUT"
    by (simp add: GPIOPin_new_def)
  note c = write_non_output [OF a b, of "''HIGH''" 100]
  from a b c show ?thesis by (simp add: GPIOPin_new_def)
qed

subsection \<open>C2: the blink sketch\<close>




subsection \<open>C3: a delay advances the simulated time by the delay\<close>



subsection \<open>C4: serial output without Serial.begin\<close>

text \<open>
  \<open>SerialData\<close> has no field that records whether \<open>Serial.begin\<close> has run, and
  \<open>serial_output\<close> has no guard: right after a reset, with no \<open>Serial.begin\<close>, printing
  \<open>hi\<close> puts it into the empty \<open>tx_buffer\<close> and counts two characters.
\<close>

theorem emit_unopened_counterexample:
  "tx_buffer (serial (reset_simulation AVRSimulator_init)) = [] \<and>
   tx_buffer (serial (arduino_serial_print (reset_simulation AVRSimulator_init) ''hi'')) = [''hi''] \<and>
   tx_count (serial (arduino_serial_print (reset_simulation AVRSimulator_init) ''hi'')) = 2"
  by (simp add: reset_simulation_def stop_simulation_def arduino_serial_print_def serial_output_def)

text \<open>
  Claim C4, amended. In every state, whether or not \<open>Serial.begin\<close> has run,
  \<open>Serial.print(text)\<close> appends \<open>text\<close> to \<open>tx_buffer\<close> and adds the length of \<open>text\<close> to
  \<open>tx_count\<close>.
\<close>

theorem emit_appends:
  "tx_buffer (serial (serial_output s text)) = tx_buffer (serial s) @ [text] \<and>
   tx_count (serial (serial_output s text)) = tx_count (serial s) + int (length text) \<and>
   arduino_serial_print s text = serial_output s text"
  by (simp add: arduino_serial_print_def serial_output_def)

subsection \<open>C5: Serial.begin and two prints\<close>

text \<open>
  \<open>arduino_serial_begin\<close> itself sends a line through \<open>serial_output\<close>, so the log after
  \<open>Serial.begin(9600)\<close> and two prints of \<open>hi\<close> is not \<open>[hi, hi]\<close> and the count is not 4.
\<close>

theorem scenario_C_counterexample:
  "tx_buffer (serial (arduino_serial_print (arduino_serial_print
      (arduino_serial_begin (reset_simulation AVRSimulator_init) 9600) ''hi'') ''hi'')) \<noteq> [''hi'', ''hi''] \<and>
   tx_count (serial (arduino_serial_print (arduino_serial_print
      (arduino_serial_begin (reset_simulation AVRSimulator_init) 9600) ''hi'') ''hi'')) \<noteq> 4"
  by (simp add: reset_simulation_def stop_simulation_def arduino_serial_print_def serial_output_def
        arduino_serial_begin_def)

text \<open>
  Claim C5, amended. From the state after a reset (of any state), \<open>Serial.begin(9600)\<close>
  followed by two prints of \<open>hi\<close> leaves \<open>tx_buffer\<close> with three entries, the line
  \<open>Serial communication started at 9600 baud\<close> (with its newline) and then \<open>hi\<close> twice,
  and \<open>tx_count\<close> equal to 46.
\<close>

theorem scenario_C:
  "tx_buffer (serial (arduino_serial_print (arduino_serial_print
      (arduino_serial_begin (reset_simulation s) 9600) ''hi'') ''hi'')) =
     [''Serial communication started at 9600 baud'' @ [CHR 0x0A], ''hi'', ''hi''] \<and>
   tx_count (serial (arduino_serial_print (arduino_serial_print
      (arduino_serial_begin (reset_simulation s) 9600) ''hi'') ''hi'')) = 46"
  by (simp add: reset_simulation_def stop_simulation_def arduino_serial_print_def serial_output_def
        arduino_serial_begin_def str_int_9600)

subsection \<open>C6: what a reset restores\<close>

text \<open>
  The reset gives a pin the analog value 512 only when its number is at least 14: the
  digital pin 0 has analog value 0 after a reset.
\<close>

theorem reset_analog_counterexample:
  "map_option analog_value (pins (reset_simulation AVRSimulator_init) 0) = Some 0"
  by (simp add: reset_simulation_def stop_simulation_def AVRSimulator_init_def init_pins_0
        reset_pin_def GPIOPin_new_def)

text \<open>
  Claim C6, amended. For every prior state, after \<open>reset_simulation\<close> every pin is \<open>LOW\<close>
  with PWM disabled, duty 0 and \<open>last_change\<close> 0, and its analog value is 512 when its
  number is at least 14 (the analog pins) and 0 otherwise; every timer has
  \<open>counter_value\<close> and \<open>overflow_count\<close> 0; both serial buffers are empty and both
  counts 0; and \<open>simulation_time\<close> is 0.
\<close>

theorem reset_restores_defaults:
  "(\<forall>k p. pins (reset_simulation s) k = Some p \<longrightarrow>
      state p = LOW \<and> analog_value p = (if number p \<ge> 14 then 512 else 0) \<and>
      \<not> pwm_enabled p \<and> pwm_value p = 0 \<and> last_change p = 0) \<and>
   (\<forall>k t. timers (reset_simulation s) k = Some t \<longrightarrow>
      counter_value t = 0 \<and> overflow_count t = 0) \<and>
   tx_buffer (serial (reset_simulation s)) = [] \<and> rx_buffer (serial (reset_simulation s)) = [] \<and>
   tx_count (serial (reset_simulation s)) = 0 \<and> rx_count (serial (reset_simulation s)) = 0 \<and>
   simulation_time (reset_simulation s) = 0"
proof -
  have "pins (reset_simulation s) k = Some p \<Longrightarrow>
      state p = LOW \<and> analog_value p = (if number p \<ge> 14 then 512 else 0) \<and>
      \<not> pwm_enabled p \<and> pwm_value p = 0 \<and> last_change p = 0" for k p
    by (auto simp: reset_simulation_def stop_simulation_def reset_pin_fields)
  moreover have "timers (reset_simulation s) k = Some t \<Longrightarrow>
      counter_value t = 0 \<and> overflow_count t = 0" for k t
    by (auto simp: reset_simulation_def stop_simulation_def reset_timer_def)
  moreover have "tx_buffer (serial (reset_simulation s)) = [] \<and>
      rx_buffer (serial (reset_simulation s)) = [] \<and>
      tx_count (serial (reset_simulation s)) = 0 \<and> rx_count (serial (reset_simulation s)) = 0 \<and>
      simulation_time (reset_simulation s) = 0"
    by (simp add: reset_simulation_def stop_simulation_def)
  ultimately show ?thesis by blast
qed

theorem reset_restores_defaults_witness:
  "(\<exists>p. pins (reset_simulation used_state) 13 = Some p \<and> state p = LOW \<and> analog_value p = 0 \<and>
      \<not> pwm_enabled p \<and> pwm_value p = 0 \<and> last_change p = 0) \<and>
   (\<exists>p. pins (reset_simulation used_state) 14 = Some p \<and> state p = LOW \<and> analog_value p = 512 \<and>
      \<not> pwm_enabled p \<and> pwm_value p = 0 \<and> last_change p = 0) \<and>
   (\<exists>t. timers (reset_simulation used_state) 1 = Some t \<and> counter_value t = 0 \<and> overflow_count t = 0) \<and>
   tx_count (serial used_state) = 44 \<and> tx_count (serial (reset_simulation used_state)) = 0 \<and>
   simulation_time used_state = 1 / 4 \<and> simulation_time (reset_simulation used_state) = 0"
proof -
  have a: "pins (reset_simulation used_state) 13 = Some (reset_pin (the (pins used_state 13)))"
    by (simp add: reset_simulation_def stop_simulation_def used_state_13)
  have b: "pins (reset_simulation used_state) 14 = Some (reset_pin (the (pins used_state 14)))"
    by (simp add: reset_simulation_def stop_simulation_def used_state_14)
  have c: "timers (reset_simulation used_state) 1 = Some (reset_timer (TimerConfig_new 1))"
    by (simp add: reset_simulation_def stop_simulation_def used_state_timer)
  have n: "number (reset_pin (the (pins used_state 13))) = 13"
          "number (reset_pin (the (pins used_state 14))) = 14"
    by (simp_all add: used_state_13 used_state_14 reset_pin_def)
  from a b c n used_state_time reset_restores_defaults [of used_state]
  show ?thesis by auto
qed

subsection \<open>C7: PWM duty is clamped\<close>

text \<open>
  Claim C7. For every integer duty \<open>v\<close> written by \<open>arduino_analogWrite\<close> to a known
  pin, the stored \<open>pwm_value\<close> lies in 0..255: a value above 255 is stored as 255, a value
  below 0 as 0, any other value as it is.
\<close>

theorem analogWrite_clamped:
  assumes "pins s pin = Some p"
  shows "\<exists>p'. pins (arduino_analogWrite s pin v) pin = Some p' \<and>
           0 \<le> pwm_value p' \<and> pwm_value p' \<le> 255 \<and>
           pwm_value p' = (if v > 255 then 255 else if v < 0 then 0 else v)"
  using assms by (simp add: arduino_analogWrite_def)

theorem analogWrite_clamped_witness:
  "pins AVRSimulator_init 9 = Some (GPIOPin_new 9) \<and>
   (\<exists>p'. pins (arduino_analogWrite AVRSimulator_init 9 300) 9 = Some p' \<and> pwm_value p' = 255) \<and>
   (\<exists>p'. pins (arduino_analogWrite AVRSimulator_init 9 (- 10)) 9 = Some p' \<and> pwm_value p' = 0)"
proof -
  have a: "pins AVRSimulator_init 9 = Some (GPIOPin_new 9)"
    by (simp add: AVRSimulator_init_def init_pins_9)
  from a analogWrite_clamped [OF a, of 300] analogWrite_clamped [OF a, of "- 10"]
  show ?thesis by auto
qed

subsection \<open>C8: a line that names an unknown pin\<close>

text \<open>
  Claim C8. A line that names a pin which the simulator does not have is skipped: it
  leaves the whole state as it is and raises nothing, and a code sequence that contains
  it anywhere runs to its end with the result of the sequence without that line.
\<close>

theorem unknown_pin_skipped:
  assumes "pin_of l = Some pin" and "pins s pin = None"
  shows "execute_line s l = Inr s \<and>
         parse_and_execute_code s (before @ l # after) = parse_and_execute_code s (before @ after)"
proof -
  let ?s1 = "parse_and_execute_code s before"
  have "pins ?s1 pin = None"
    using assms(2) by (simp add: parse_and_execute_code_known)
  then have "execute_line ?s1 l = Inr ?s1"
    using assms(1) by (rule execute_line_unknown_pin [rotated])
  then have "parse_and_execute_code ?s1 (l # after) = parse_and_execute_code ?s1 after"
    by simp
  then show ?thesis
    using execute_line_unknown_pin [OF assms] by (simp add: parse_and_execute_code_append)
qed

theorem unknown_pin_skipped_witness:
  "pin_of (DigitalWriteLine 42 ''HIGH'') = Some 42 \<and> pins AVRSimulator_init 42 = None \<and>
   execute_line AVRSimulator_init (DigitalWriteLine 42 ''HIGH'') = Inr AVRSimulator_init \<and>
   parse_and_execute_code AVRSimulator_init
     ([PinModeLine 9 ''OUTPUT''] @ DigitalWriteLine 42 ''HIGH'' # [DigitalWriteLine 9 ''HIGH'']) =
   parse_and_execute_code AVRSimulator_init ([PinModeLine 9 ''OUTPUT''] @ [DigitalWriteLine 9 ''HIGH'']) \<and>
   map_option state (pins (parse_and_execute_code AVRSimulator_init
     ([PinModeLine 9 ''OUTPUT''] @ DigitalWriteLine 42 ''HIGH'' # [DigitalWriteLine 9 ''HIGH''])) 9) = Some HIGH"
proof -
  have a: "pin_of (DigitalWriteLine 42 ''HIGH'') = Some 42"
    by (simp add: pin_of_def)
  have b: "pins AVRSimulator_init 42 = None"
    by (simp add: AVRSimulator_init_def init_pins_42)
  note c = unknown_pin_skipped [OF a b, of "[PinModeLine 9 ''OUTPUT'']" "[DigitalWriteLine 9 ''HIGH'']"]
  have d: "map_option state (pins (parse_and_execute_code AVRSimulator_init
     ([PinModeLine 9 ''OUTPUT''] @ [DigitalWriteLine 9 ''HIGH''])) 9) = Some HIGH"
    by (simp add: AVRSimulator_init_def init_pins_9 arduino_pinMode_def arduino_digitalWrite_def)
  from a b c d show ?thesis by simp
qed

subsection \<open>C10: a reset keeps the pin modes\<close>

text \<open>
  Claim C10. \<open>reset_simulation\<close> never changes a pin's mode (nor its number, nor which
  pins exist): under every key the mode after the reset is the mode before. Only
  \<open>state\<close>, \<open>analog_value\<close>, \<open>pwm_value\<close>, \<open>pwm_enabled\<close> and \<open>last_change\<close> are set
  to their defaults.
\<close>

theorem reset_keeps_mode:
  "map_option mode (pins (reset_simulation s) k) = map_option mode (pins s k) \<and>
   map_option number (pins (reset_simulation s) k) = map_option number (pins s k) \<and>
   pins (reset_simulation s) k =
     map_option (\<lambda>p. p\<lparr>state := LOW, analog_value := (if number p \<ge> 14 then 512 else 0),
                       pwm_value := 0, pwm_enabled := False, last_change := 0\<rparr>) (pins s k)"
  by (cases "pins s k") (simp_all add: reset_simulation_def stop_simulation_def reset_pin_def)

end
